theory Spec2Isabelle
  imports Main
begin

section \<open>The user list view: data model\<close>

text \<open>
  The view keeps its state in a handful of reactive references (\<^verbatim>\<open>ref(...)\<close>) and one
  plain variable (\<^verbatim>\<open>fuse\<close>). The remote API, the toast and dialog primitives and the
  user store are collaborators: what they answer is a parameter of each handler, what the
  view asks of them is appended to a log of effects.
\<close>

record Metadata =
  name :: string
  annotations :: "(string \<rightharpoonup> string) option"
  deletionTimestamp :: "string option"

record UserSpec =
  displayName :: string
  email :: string

record User =
  metadata :: Metadata
  spec :: UserSpec

text \<open>The page of users as the list call returns it (\<^verbatim>\<open>UserList\<close>).\<close>

record UserList =
  page :: int
  size' :: int
  total :: int
  items :: "User list"
  first' :: bool
  last' :: bool
  hasNext :: bool
  hasPrevious :: bool
  totalPages :: int

datatype error = RemoteError | SyntaxError

text \<open>
  What the view asks of the outside world, in the order it asks:
  \<^verbatim>\<open>listv1alpha1User({page, size})\<close>, \<^verbatim>\<open>deletev1alpha1User({name})\<close>,
  \<^verbatim>\<open>Toast.success(...)\<close> (its text is the localised "deleted successfully") and
  \<^verbatim>\<open>console.error(message, e)\<close>.
\<close>

datatype effect =
    ListRequest int int
  | DeleteRequest string
  | ToastSuccess
  | ConsoleError string

text \<open>
  The state of the view. \<open>timers\<close> and \<open>nextTimer\<close> are the part of the browser the view
  talks to through \<^verbatim>\<open>setInterval\<close> and \<^verbatim>\<open>clearInterval\<close>: the identifiers of the
  intervals that are still running, and the next fresh identifier. \<open>refreshInterval\<close> is
  the handle the view remembers; \<^verbatim>\<open>clearInterval\<close> never resets it.
\<close>

record State =
  checkedAll :: bool
  editingModal :: bool
  passwordChangeModal :: bool
  grantPermissionModal :: bool
  users :: UserList
  loading :: bool
  selectedUserNames :: "string list"
  selectedUser :: "User option"
  refreshInterval :: "nat option"
  fuse :: "User list option"
  keyword :: string
  timers :: "nat list"
  nextTimer :: nat
  effects :: "effect list"

definition initialUsers :: UserList where
  "initialUsers =
     \<lparr>page = 1, size' = 20, total = 0, items = [], first' = True, last' = False,
      hasNext = False, hasPrevious = False, totalPages = 0\<rparr>"

definition initialState :: State where
  "initialState =
     \<lparr>checkedAll = False, editingModal = False, passwordChangeModal = False,
      grantPermissionModal = False, users = initialUsers, loading = False,
      selectedUserNames = [], selectedUser = None, refreshInterval = None,
      fuse = None, keyword = [], timers = [], nextTimer = 1, effects = []\<rparr>"

section \<open>Completions: try, catch, finally\<close>

text \<open>
  A block of a handler completes normally with a value or abruptly with an error, and
  leaves a state behind: \<open>(Inr x, s)\<close> or \<open>(Inl e, s)\<close>. An \<^verbatim>\<open>async\<close> function that
  completes abruptly is a rejected promise: the error has left the handler.
\<close>

type_synonym 'a completion = "(error + 'a) \<times> State"

definition try_catch :: "'a completion \<Rightarrow> (error \<Rightarrow> State \<Rightarrow> 'a completion) \<Rightarrow> 'a completion" where
  "try_catch r handler = (case r of (Inl e, s) \<Rightarrow> handler e s | (Inr x, s) \<Rightarrow> (Inr x, s))"

definition try_finally :: "'a completion \<Rightarrow> (State \<Rightarrow> unit completion) \<Rightarrow> 'a completion" where
  "try_finally r finalizer =
     (case r of (c, s) \<Rightarrow>
        (case finalizer s of (Inl e, s') \<Rightarrow> (Inl e, s') | (Inr u, s') \<Rightarrow> (c, s')))"

definition perform :: "effect \<Rightarrow> State \<Rightarrow> State" where
  "perform x s = s\<lparr>effects := effects s @ [x]\<rparr>"

section \<open>Timers\<close>

definition clearInterval :: "nat option \<Rightarrow> State \<Rightarrow> State" where
  "clearInterval handle s =
     (case handle of None \<Rightarrow> s | Some t \<Rightarrow> s\<lparr>timers := removeAll t (timers s)\<rparr>)"

text \<open>\<^verbatim>\<open>refreshInterval.value = setInterval(...)\<close>: a fresh interval starts and its
  identifier is stored.\<close>

definition setInterval :: "State \<Rightarrow> State" where
  "setInterval s =
     s\<lparr>timers := timers s @ [nextTimer s], refreshInterval := Some (nextTimer s),
       nextTimer := Suc (nextTimer s)\<rparr>"

section \<open>handleFetchUsers\<close>

record Options =
  mute :: "bool option"

text \<open>\<^verbatim>\<open>options?.mute\<close> read as a condition: absent counts as false.\<close>

definition muted :: "Options option \<Rightarrow> bool" where
  "muted options =
     (case options of None \<Rightarrow> False
      | Some opt \<Rightarrow> (case mute opt of None \<Rightarrow> False | Some b \<Rightarrow> b))"

text \<open>\<^verbatim>\<open>!!user.metadata.deletionTimestamp\<close>: a string is truthy when it is not empty.\<close>

definition pendingDeletion :: "User \<Rightarrow> bool" where
  "pendingDeletion user =
     (case deletionTimestamp (metadata user) of None \<Rightarrow> False | Some t \<Rightarrow> t \<noteq> [])"

text \<open>
  The function suspends once, at \<^verbatim>\<open>await listv1alpha1User(...)\<close>. \<open>fetch_issue\<close> is what
  runs before the suspension: the pending interval is cancelled, the loading flag is raised
  unless muted, and the request leaves with the stored page number and size.
\<close>

definition fetch_issue :: "Options option \<Rightarrow> State \<Rightarrow> State" where
  "fetch_issue options s =
     (let s1 = clearInterval (refreshInterval s) s;
          s2 = (if \<not> muted options then s1\<lparr>loading := True\<rparr> else s1)
      in perform (ListRequest (page (users s2)) (size' (users s2))) s2)"

text \<open>The rest of the \<^verbatim>\<open>try\<close> block, once the call has settled with \<open>response\<close>.\<close>

definition fetch_try :: "error + UserList \<Rightarrow> State \<Rightarrow> unit completion" where
  "fetch_try response s =
     (case response of
        Inl e \<Rightarrow> (Inl e, s)
      | Inr data \<Rightarrow>
          (let s1 = s\<lparr>users := data\<rparr>;
               s2 = s1\<lparr>fuse := Some (items data)\<rparr>;
               deletedUsers = filter pendingDeletion (items (users s2))
           in (Inr (), if deletedUsers \<noteq> [] then setInterval s2 else s2)))"

definition fetch_catch :: "error \<Rightarrow> State \<Rightarrow> unit completion" where
  "fetch_catch e s = (Inr (), perform (ConsoleError ''Failed to fetch users'') s)"

definition fetch_finally :: "State \<Rightarrow> unit completion" where
  "fetch_finally s = (Inr (), s\<lparr>selectedUser := None, loading := False\<rparr>)"

text \<open>What runs when the call settles: the rest of \<^verbatim>\<open>try\<close>, then \<^verbatim>\<open>catch\<close>, then
  \<^verbatim>\<open>finally\<close>.\<close>

definition fetch_settle :: "error + UserList \<Rightarrow> State \<Rightarrow> unit completion" where
  "fetch_settle response s =
     try_finally (try_catch (fetch_try response s) fetch_catch) fetch_finally"

text \<open>One call of \<^verbatim>\<open>handleFetchUsers\<close> that nothing else interleaves with.\<close>

definition handleFetchUsers :: "Options option \<Rightarrow> error + UserList \<Rightarrow> State \<Rightarrow> unit completion" where
  "handleFetchUsers options response s = fetch_settle response (fetch_issue options s)"

text \<open>The callback of the interval: \<^verbatim>\<open>handleFetchUsers({ mute: true })\<close>.\<close>

definition muteOptions :: "Options option" where
  "muteOptions = Some \<lparr>mute = Some True\<rparr>"

definition intervalCallback :: "error + UserList \<Rightarrow> State \<Rightarrow> unit completion" where
  "intervalCallback response s = handleFetchUsers muteOptions response s"

definition onMounted :: "error + UserList \<Rightarrow> State \<Rightarrow> unit completion" where
  "onMounted response s = handleFetchUsers None response s"

definition onUnmounted :: "State \<Rightarrow> State" where
  "onUnmounted s = clearInterval (refreshInterval s) s"

section \<open>searchResults\<close>

text \<open>
  \<^verbatim>\<open>fuse.search(keyword).map((item) => item.item)\<close> belongs to the search library: it is
  the parameter \<open>fuse_search\<close>, applied to the list the index was built from.
\<close>

definition searchResults :: "(User list \<Rightarrow> string \<Rightarrow> User list) \<Rightarrow> State \<Rightarrow> User list" where
  "searchResults fuse_search s =
     (case fuse s of
        None \<Rightarrow> items (users s)
      | Some index \<Rightarrow>
          if keyword s = [] then items (users s) else fuse_search index (keyword s))"

section \<open>handlePaginationChange\<close>

definition handlePaginationChange :: "int \<Rightarrow> int \<Rightarrow> error + UserList \<Rightarrow> State \<Rightarrow> unit completion" where
  "handlePaginationChange p sz response s =
     (let s1 = s\<lparr>users := (users s)\<lparr>page := p\<rparr>\<rparr>;
          s2 = s1\<lparr>users := (users s1)\<lparr>size' := sz\<rparr>\<rparr>
      in handleFetchUsers None response s2)"

section \<open>handleDelete and handleDeleteInBatch\<close>

text \<open>
  Both handlers open a confirmation dialog and do their work in its \<^verbatim>\<open>onConfirm\<close>
  callback; the callback is what is modelled. \<open>removal\<close> is the answer of the remove call.
\<close>

definition delete_try :: "User \<Rightarrow> error + unit \<Rightarrow> State \<Rightarrow> unit completion" where
  "delete_try user removal s =
     (let s1 = perform (DeleteRequest (name (metadata user))) s
      in case removal of
           Inl e \<Rightarrow> (Inl e, s1)
         | Inr u \<Rightarrow> (Inr (), perform ToastSuccess s1))"

definition delete_catch :: "error \<Rightarrow> State \<Rightarrow> unit completion" where
  "delete_catch e s = (Inr (), perform (ConsoleError ''Failed to delete user'') s)"

definition handleDelete_onConfirm :: "User \<Rightarrow> error + unit \<Rightarrow> error + UserList \<Rightarrow> State \<Rightarrow> unit completion" where
  "handleDelete_onConfirm user removal response s =
     try_finally (try_catch (delete_try user removal s) delete_catch)
       (handleFetchUsers None response)"

text \<open>\<^verbatim>\<open>userStore.currentUser?.metadata.name\<close>: undefined when nobody is logged in.\<close>

definition currentUserName :: "User option \<Rightarrow> string option" where
  "currentUserName currentUser = map_option (\<lambda>u. name (metadata u)) currentUser"

definition userNamesToDelete :: "User option \<Rightarrow> State \<Rightarrow> string list" where
  "userNamesToDelete currentUser s =
     filter (\<lambda>n. Some n \<noteq> currentUserName currentUser) (selectedUserNames s)"

text \<open>
  \<^verbatim>\<open>Promise.all\<close>: fulfilled when every promise is, rejected as soon as one is. Of
  several rejections the model reports the first of the list.
\<close>

fun promise_all :: "(error + 'a) list \<Rightarrow> error + 'a list" where
  "promise_all [] = Inr []"
| "promise_all (Inl e # rs) = Inl e"
| "promise_all (Inr x # rs) = (case promise_all rs of Inl e \<Rightarrow> Inl e | Inr xs \<Rightarrow> Inr (x # xs))"

text \<open>
  The \<^verbatim>\<open>map\<close> creates every remove call before anything is awaited, so all the requests
  leave whatever the answers will be; \<open>removal n\<close> is the answer for the name \<open>n\<close>. There
  is no \<^verbatim>\<open>try\<close> in this callback.
\<close>

definition handleDeleteInBatch_onConfirm ::
  "User option \<Rightarrow> (string \<Rightarrow> error + unit) \<Rightarrow> error + UserList \<Rightarrow> State \<Rightarrow> unit completion" where
  "handleDeleteInBatch_onConfirm currentUser removal response s =
     (let names = userNamesToDelete currentUser s;
          s1 = s\<lparr>effects := effects s @ map DeleteRequest names\<rparr>
      in case promise_all (map removal names) of
           Inl e \<Rightarrow> (Inl e, s1)
         | Inr settled \<Rightarrow>
             (case handleFetchUsers None response s1 of
                (Inl e, s2) \<Rightarrow> (Inl e, s2)
              | (Inr u, s2) \<Rightarrow> (Inr (), perform ToastSuccess (s2\<lparr>selectedUserNames := []\<rparr>))))"

section \<open>Selection\<close>

text \<open>
  \<^verbatim>\<open>watch(selectedUserNames, (newValue) => ...)\<close> watches the reference, not the array
  behind it (no \<^verbatim>\<open>deep\<close> option): its callback runs when a new array is assigned to
  \<^verbatim>\<open>selectedUserNames.value\<close>, and does not run when the array is emptied in place by
  \<^verbatim>\<open>selectedUserNames.value.length = 0\<close>, nor when \<^verbatim>\<open>users\<close> changes.
\<close>

definition watch_selectedUserNames :: "string list \<Rightarrow> State \<Rightarrow> State" where
  "watch_selectedUserNames newValue s =
     s\<lparr>checkedAll := (length newValue = length (items (users s)))\<rparr>"

definition assign_selectedUserNames :: "string list \<Rightarrow> State \<Rightarrow> State" where
  "assign_selectedUserNames v s = watch_selectedUserNames v (s\<lparr>selectedUserNames := v\<rparr>)"

definition handleCheckAllChange :: "bool \<Rightarrow> State \<Rightarrow> State" where
  "handleCheckAllChange checked s =
     (if checked
      then assign_selectedUserNames (map (\<lambda>user. name (metadata user)) (items (users s))) s
      else s\<lparr>selectedUserNames := []\<rparr>)"

text \<open>
  The check-all box of the template carries \<^verbatim>\<open>v-model="checkedAll"\<close> and
  \<^verbatim>\<open>@change="handleCheckAllChange"\<close>: a click writes the box's state to \<open>checkedAll\<close> and
  calls the handler.
\<close>

definition checkAllBox_change :: "bool \<Rightarrow> State \<Rightarrow> State" where
  "checkAllBox_change checked s = handleCheckAllChange checked (s\<lparr>checkedAll := checked\<rparr>)"

text \<open>
  The box of a row carries \<^verbatim>\<open>v-model="selectedUserNames"\<close> with the user's name as its
  value: ticking it assigns the array with the name appended, unticking it assigns a copy
  without the name.
\<close>

definition rowBox_change :: "string \<Rightarrow> bool \<Rightarrow> State \<Rightarrow> State" where
  "rowBox_change n checked s =
     (if checked \<and> n \<notin> set (selectedUserNames s)
      then assign_selectedUserNames (selectedUserNames s @ [n]) s
      else if \<not> checked \<and> n \<in> set (selectedUserNames s)
      then assign_selectedUserNames (remove1 n (selectedUserNames s)) s
      else s)"

definition checkSelection :: "User \<Rightarrow> State \<Rightarrow> bool" where
  "checkSelection user s =
     (Some (name (metadata user)) = map_option (\<lambda>u. name (metadata u)) (selectedUser s)
      \<or> name (metadata user) \<in> set (selectedUserNames s))"

definition handleOpenCreateModal :: "User \<Rightarrow> State \<Rightarrow> State" where
  "handleOpenCreateModal user s = s\<lparr>selectedUser := Some user, editingModal := True\<rparr>"

definition handleOpenPasswordChangeModal :: "User \<Rightarrow> State \<Rightarrow> State" where
  "handleOpenPasswordChangeModal user s = s\<lparr>selectedUser := Some user, passwordChangeModal := True\<rparr>"

definition handleOpenGrantPermissionModal :: "User \<Rightarrow> State \<Rightarrow> State" where
  "handleOpenGrantPermissionModal user s = s\<lparr>selectedUser := Some user, grantPermissionModal := True\<rparr>"

section \<open>getRoles\<close>

text \<open>
  \<^verbatim>\<open>JSON.parse\<close> belongs to the language. It is modelled as a lexer followed by a
  pushdown automaton over the tokens, for the whole JSON grammar. A decoded string is a
  list of UTF-16 code units (a \<^verbatim>\<open>\u\<close> escape can name any of them); a number keeps its
  lexeme; an object keeps its members in the order of the text.
\<close>

datatype json =
    JNull
  | JBool bool
  | JNumber string
  | JString "nat list"
  | JArray "json list"
  | JObject "(nat list \<times> json) list"

datatype token = LBracket | RBracket | LBrace | RBrace | Colon | Comma | Atom json

definition is_ws :: "char \<Rightarrow> bool" where
  "is_ws c = (c = CHR '' '' \<or> c = CHR 0x09 \<or> c = CHR 0x0A \<or> c = CHR 0x0D)"

definition is_digit :: "char \<Rightarrow> bool" where
  "is_digit c = ((48::nat) \<le> of_char c \<and> of_char c \<le> (57::nat))"

definition hex_digit :: "char \<Rightarrow> nat option" where
  "hex_digit c =
     (let n = of_char c :: nat
      in if 48 \<le> n \<and> n \<le> 57 then Some (n - 48)
         else if 65 \<le> n \<and> n \<le> 70 then Some (n - 55)
         else if 97 \<le> n \<and> n \<le> 102 then Some (n - 87)
         else None)"

definition hex4 :: "char \<Rightarrow> char \<Rightarrow> char \<Rightarrow> char \<Rightarrow> nat option" where
  "hex4 a b c d =
     (case (hex_digit a, hex_digit b, hex_digit c, hex_digit d) of
        (Some w, Some x, Some y, Some z) \<Rightarrow> Some (((w * 16 + x) * 16 + y) * 16 + z)
      | _ \<Rightarrow> None)"

text \<open>The character after a backslash, other than \<^verbatim>\<open>u\<close>.\<close>

definition escape :: "char \<Rightarrow> nat option" where
  "escape e =
     (if e = CHR 0x22 then Some 0x22
      else if e = CHR 0x5C then Some 0x5C
      else if e = CHR ''/'' then Some 0x2F
      else if e = CHR ''b'' then Some 8
      else if e = CHR ''f'' then Some 12
      else if e = CHR ''n'' then Some 10
      else if e = CHR ''r'' then Some 13
      else if e = CHR ''t'' then Some 9
      else None)"

definition unit_then :: "nat \<Rightarrow> nat \<Rightarrow> (nat list \<times> nat) option \<Rightarrow> (nat list \<times> nat) option" where
  "unit_then u k r = map_option (\<lambda>(us, n). (u # us, n + k)) r"

text \<open>
  The text after an opening quote: the code units up to the closing quote, and how many
  characters were read, the closing quote included.
\<close>

fun lex_string :: "string \<Rightarrow> (nat list \<times> nat) option" where
  "lex_string [] = None"
| "lex_string (c # cs) =
     (if c = CHR 0x22 then Some ([], 1)
      else if c = CHR 0x5C then
        (case cs of
           [] \<Rightarrow> None
         | e # cs1 \<Rightarrow>
             if e = CHR ''u'' then
               (case cs1 of
                  h1 # h2 # h3 # h4 # cs2 \<Rightarrow>
                    (case hex4 h1 h2 h3 h4 of
                       None \<Rightarrow> None
                     | Some u \<Rightarrow> unit_then u 6 (lex_string cs2))
                | _ \<Rightarrow> None)
             else
               (case escape e of
                  None \<Rightarrow> None
                | Some u \<Rightarrow> unit_then u 2 (lex_string cs1)))
      else if (of_char c :: nat) < 32 then None
      else unit_then (of_char c) 1 (lex_string cs))"

definition lex_digits :: "string \<Rightarrow> string option" where
  "lex_digits cs = (if takeWhile is_digit cs = [] then None else Some (takeWhile is_digit cs))"

definition lex_int :: "string \<Rightarrow> string option" where
  "lex_int cs =
     (case cs of
        [] \<Rightarrow> None
      | d # ds \<Rightarrow>
          if d = CHR ''0'' then Some [d]
          else if is_digit d then Some (d # takeWhile is_digit ds)
          else None)"

definition lex_frac :: "string \<Rightarrow> string option" where
  "lex_frac cs =
     (case cs of
        [] \<Rightarrow> Some []
      | d # ds \<Rightarrow>
          if d = CHR ''.'' then map_option (Cons d) (lex_digits ds) else Some [])"

definition lex_exp :: "string \<Rightarrow> string option" where
  "lex_exp cs =
     (case cs of
        [] \<Rightarrow> Some []
      | e # ds \<Rightarrow>
          if e = CHR ''e'' \<or> e = CHR ''E'' then
            (case ds of
               [] \<Rightarrow> None
             | g # gs \<Rightarrow>
                 if g = CHR ''+'' \<or> g = CHR ''-''
                 then map_option (\<lambda>x. e # g # x) (lex_digits gs)
                 else map_option (Cons e) (lex_digits ds))
          else Some [])"

text \<open>The lexeme of the number a text starts with: sign, integer, fraction, exponent.\<close>

definition lex_number :: "string \<Rightarrow> string option" where
  "lex_number cs =
     (let sign = (if take 1 cs = ''-'' then ''-'' else [])
      in case lex_int (drop (length sign) cs) of
           None \<Rightarrow> None
         | Some i \<Rightarrow>
             (case lex_frac (drop (length (sign @ i)) cs) of
                None \<Rightarrow> None
              | Some f \<Rightarrow>
                  (case lex_exp (drop (length (sign @ i @ f)) cs) of
                     None \<Rightarrow> None
                   | Some x \<Rightarrow> Some (sign @ i @ f @ x))))"

fun tokenize :: "string \<Rightarrow> token list option" where
  "tokenize [] = Some []"
| "tokenize (c # cs) =
     (if is_ws c then tokenize cs
      else if c = CHR ''['' then map_option (Cons LBracket) (tokenize cs)
      else if c = CHR '']'' then map_option (Cons RBracket) (tokenize cs)
      else if c = CHR ''{'' then map_option (Cons LBrace) (tokenize cs)
      else if c = CHR ''}'' then map_option (Cons RBrace) (tokenize cs)
      else if c = CHR '':'' then map_option (Cons Colon) (tokenize cs)
      else if c = CHR '','' then map_option (Cons Comma) (tokenize cs)
      else if c = CHR 0x22 then
        (case lex_string cs of
           None \<Rightarrow> None
         | Some (us, k) \<Rightarrow> map_option (Cons (Atom (JString us))) (tokenize (drop k cs)))
      else if c = CHR ''-'' \<or> is_digit c then
        (case lex_number (c # cs) of
           None \<Rightarrow> None
         | Some l \<Rightarrow> map_option (Cons (Atom (JNumber l))) (tokenize (drop (length l - 1) cs)))
      else if take 4 (c # cs) = ''true'' then map_option (Cons (Atom (JBool True))) (tokenize (drop 3 cs))
      else if take 5 (c # cs) = ''false'' then map_option (Cons (Atom (JBool False))) (tokenize (drop 4 cs))
      else if take 4 (c # cs) = ''null'' then map_option (Cons (Atom JNull)) (tokenize (drop 3 cs))
      else None)"

text \<open>
  The automaton: what it may read next, and the arrays and objects that are still open,
  innermost first, each with what it holds so far (latest first).
\<close>

datatype frame =
    InArray "json list"
  | InObject "(nat list \<times> json) list"
  | InMember "(nat list \<times> json) list" "nat list"

datatype expect =
    Value
  | ValueOrClose
  | KeyOrClose
  | Key
  | ColonAfter "nat list"
  | CommaOrClose
  | Finished json

fun deliver :: "json \<Rightarrow> frame list \<Rightarrow> (expect \<times> frame list) option" where
  "deliver v [] = Some (Finished v, [])"
| "deliver v (InArray xs # st) = Some (CommaOrClose, InArray (v # xs) # st)"
| "deliver v (InMember ms k # st) = Some (CommaOrClose, InObject ((k, v) # ms) # st)"
| "deliver v (InObject ms # st) = None"

fun open_value :: "token \<Rightarrow> frame list \<Rightarrow> (expect \<times> frame list) option" where
  "open_value (Atom v) st = deliver v st"
| "open_value LBracket st = Some (ValueOrClose, InArray [] # st)"
| "open_value LBrace st = Some (KeyOrClose, InObject [] # st)"
| "open_value t st = None"

fun open_key :: "token \<Rightarrow> frame list \<Rightarrow> (expect \<times> frame list) option" where
  "open_key (Atom (JString k)) st = Some (ColonAfter k, st)"
| "open_key t st = None"

fun step :: "token \<Rightarrow> expect \<Rightarrow> frame list \<Rightarrow> (expect \<times> frame list) option" where
  "step t Value st = open_value t st"
| "step t ValueOrClose (InArray xs # st) =
     (if t = RBracket then deliver (JArray (rev xs)) st else open_value t (InArray xs # st))"
| "step t KeyOrClose (InObject ms # st) =
     (if t = RBrace then deliver (JObject (rev ms)) st else open_key t (InObject ms # st))"
| "step t Key st = open_key t st"
| "step t (ColonAfter k) (InObject ms # st) =
     (if t = Colon then Some (Value, InMember ms k # st) else None)"
| "step t CommaOrClose (InArray xs # st) =
     (if t = Comma then Some (Value, InArray xs # st)
      else if t = RBracket then deliver (JArray (rev xs)) st
      else None)"
| "step t CommaOrClose (InObject ms # st) =
     (if t = Comma then Some (Key, InObject ms # st)
      else if t = RBrace then deliver (JObject (rev ms)) st
      else None)"
| "step t e st = None"

fun run :: "token list \<Rightarrow> expect \<Rightarrow> frame list \<Rightarrow> json option" where
  "run [] (Finished v) st = Some v"
| "run [] e st = None"
| "run (t # ts) e st = (case step t e st of None \<Rightarrow> None | Some (e', st') \<Rightarrow> run ts e' st')"

definition JSON_parse :: "string \<Rightarrow> error + json" where
  "JSON_parse text =
     (case tokenize text of
        None \<Rightarrow> Inl SyntaxError
      | Some ts \<Rightarrow> (case run ts Value [] of None \<Rightarrow> Inl SyntaxError | Some v \<Rightarrow> Inr v))"

text \<open>
  \<^verbatim>\<open>user.metadata.annotations?.[rbacAnnotations.ROLE_NAMES]\<close>. The constant lives in
  another module: the key is the parameter \<open>ROLE_NAMES\<close>.
\<close>

definition roleNamesAnnotation :: "string \<Rightarrow> User \<Rightarrow> string option" where
  "roleNamesAnnotation ROLE_NAMES user =
     (case annotations (metadata user) of None \<Rightarrow> None | Some a \<Rightarrow> a ROLE_NAMES)"

text \<open>\<^verbatim>\<open>x || "[]"\<close>: the default stands in for undefined and for the empty string, the
  one falsy string.\<close>

definition getRoles :: "string \<Rightarrow> User \<Rightarrow> error + json" where
  "getRoles ROLE_NAMES user =
     JSON_parse
       (case roleNamesAnnotation ROLE_NAMES user of
          None \<Rightarrow> ''[]''
        | Some text \<Rightarrow> if text = [] then ''[]'' else text)"

definition jstring :: "string \<Rightarrow> json" where
  "jstring cs = JString (map of_char cs)"

section \<open>Sample data\<close>

definition sampleUser :: "string \<Rightarrow> string option \<Rightarrow> User" where
  "sampleUser n deleted =
     \<lparr>metadata = \<lparr>name = n, annotations = None, deletionTimestamp = deleted\<rparr>,
      spec = \<lparr>displayName = n, email = []\<rparr>\<rparr>"

definition samplePage :: "int \<Rightarrow> User list \<Rightarrow> UserList" where
  "samplePage p us = initialUsers\<lparr>page := p, items := us, total := int (length us)\<rparr>"

definition sampleUserWithRoles :: "string \<Rightarrow> string \<Rightarrow> string \<Rightarrow> User" where
  "sampleUserWithRoles n k text =
     \<lparr>metadata = \<lparr>name = n, annotations = Some [k \<mapsto> text], deletionTimestamp = None\<rparr>,
      spec = \<lparr>displayName = n, email = []\<rparr>\<rparr>"

definition deletingPage :: UserList where
  "deletingPage = samplePage 1 [sampleUser ''bob'' (Some ''2022-10-01T00:00:00Z'')]"

section \<open>One timer at most, when fetches do not overlap\<close>

definition timer_inv :: "State \<Rightarrow> bool" where
  "timer_inv s = (timers s = [] \<or> (\<exists>t. timers s = [t] \<and> refreshInterval s = Some t))"

section \<open>Properties\<close>

lemma users_fetch_issue: "users (fetch_issue options s) = users s"
  by (simp add: fetch_issue_def perform_def clearInterval_def Let_def split: option.split)

lemma fetch_settle_failure:
  "fetch_settle (Inl e) s =
     (Inr (), (perform (ConsoleError ''Failed to fetch users'') s)\<lparr>selectedUser := None, loading := False\<rparr>)"
  by (simp add: fetch_settle_def fetch_try_def fetch_catch_def fetch_finally_def
      try_catch_def try_finally_def)

lemma fetch_settle_success:
  "fetch_settle (Inr data) s = (Inr (), (snd (fetch_try (Inr data) s))\<lparr>selectedUser := None, loading := False\<rparr>)"
  by (simp add: fetch_settle_def fetch_try_def fetch_catch_def fetch_finally_def
      try_catch_def try_finally_def Let_def)

text \<open>
  C1. When the list call fails, neither half of \<^verbatim>\<open>handleFetchUsers\<close> touches the stored
  page, so the page after the call is the page before it; when it succeeds, the stored page
  is the response, whole. Whatever the call answers, the handler completes normally with
  the loading flag lowered and no active user.
\<close>

theorem C1_fetch_failure_atomic_and_cleanup:
  "users (snd (handleFetchUsers options (Inl e) s)) = users s
   \<and> users (snd (handleFetchUsers options (Inr data) s)) = data
   \<and> users (fetch_issue options s) = users s
   \<and> users (snd (fetch_settle (Inl e) s)) = users s
   \<and> fst (handleFetchUsers options response s) = Inr ()
   \<and> loading (snd (handleFetchUsers options response s)) = False
   \<and> selectedUser (snd (handleFetchUsers options response s)) = None
   \<and> loading (snd (fetch_settle response s)) = False
   \<and> selectedUser (snd (fetch_settle response s)) = None"
proof -
  have settle: "fst (fetch_settle response t) = Inr ()
      \<and> loading (snd (fetch_settle response t)) = False
      \<and> selectedUser (snd (fetch_settle response t)) = None" for t
    by (cases response) (simp_all add: fetch_settle_failure fetch_settle_success)
  have fail: "users (snd (fetch_settle (Inl e) t)) = users t" for t
    by (simp add: fetch_settle_failure perform_def)
  have replace: "users (snd (fetch_settle (Inr data) t)) = data" for t
    by (simp add: fetch_settle_success fetch_try_def setInterval_def Let_def)
  show ?thesis
    using settle [of s] settle [of "fetch_issue options s"] fail [of s]
      fail [of "fetch_issue options s"] replace [of "fetch_issue options s"]
    by (simp add: handleFetchUsers_def users_fetch_issue)
qed


subsection \<open>What a fetch changes and what it leaves alone\<close>

lemma fetch_issue_fields:
  "selectedUserNames (fetch_issue options s) = selectedUserNames s"
  "checkedAll (fetch_issue options s) = checkedAll s"
  "effects (fetch_issue options s) = effects s @ [ListRequest (page (users s)) (size' (users s))]"
  by (simp_all add: fetch_issue_def perform_def clearInterval_def Let_def split: option.split)

lemma fetch_settle_fields:
  "selectedUserNames (snd (fetch_settle response s)) = selectedUserNames s"
  "checkedAll (snd (fetch_settle response s)) = checkedAll s"
  "fst (fetch_settle response s) = Inr ()"
  "effects (snd (fetch_settle response s)) =
     effects s @ (case response of Inl e \<Rightarrow> [ConsoleError ''Failed to fetch users''] | Inr d \<Rightarrow> [])"
  by (cases response; simp add: fetch_settle_failure fetch_settle_success fetch_try_def
      perform_def setInterval_def Let_def)+

lemma handleFetchUsers_fields:
  "selectedUserNames (snd (handleFetchUsers options response s)) = selectedUserNames s"
  "checkedAll (snd (handleFetchUsers options response s)) = checkedAll s"
  "fst (handleFetchUsers options response s) = Inr ()"
  "effects (snd (handleFetchUsers options response s)) =
     effects s @ ListRequest (page (users s)) (size' (users s)) #
       (case response of Inl e \<Rightarrow> [ConsoleError ''Failed to fetch users''] | Inr d \<Rightarrow> [])"
  by (simp_all add: handleFetchUsers_def fetch_settle_fields fetch_issue_fields)

lemma handleFetchUsers_pair:
  "handleFetchUsers options response s = (Inr (), snd (handleFetchUsers options response s))"
  using handleFetchUsers_fields(3) [of options response s] by (metis prod.collapse)

lemma handlePaginationChange_fields:
  "selectedUserNames (snd (handlePaginationChange p sz response s)) = selectedUserNames s"
  "checkedAll (snd (handlePaginationChange p sz response s)) = checkedAll s"
  by (simp_all add: handlePaginationChange_def Let_def handleFetchUsers_fields)

lemmas sample_run_defs =
  handleFetchUsers_def fetch_settle_success fetch_try_def fetch_issue_def perform_def
  clearInterval_def setInterval_def Let_def initialState_def initialUsers_def samplePage_def
  sampleUser_def muted_def pendingDeletion_def

subsection \<open>The selection and the page\<close>

text \<open>
  C2, as stated, fails. The first page holds alice and every row is ticked; the user moves
  to the second page, which holds bob. No line of \<^verbatim>\<open>handlePaginationChange\<close> or
  \<^verbatim>\<open>handleFetchUsers\<close> touches \<^verbatim>\<open>selectedUserNames\<close>: alice stays selected against
  a page she is not on.
\<close>

theorem C2_selection_survives_page_change:
  "\<not> set (selectedUserNames
        (snd (handlePaginationChange 2 20 (Inr (samplePage 2 [sampleUser ''bob'' None]))
           (handleCheckAllChange True
              (snd (handleFetchUsers None (Inr (samplePage 1 [sampleUser ''alice'' None]))
                 initialState))))))
     \<subseteq> set (map (\<lambda>user. name (metadata user))
         (items (users
           (snd (handlePaginationChange 2 20 (Inr (samplePage 2 [sampleUser ''bob'' None]))
              (handleCheckAllChange True
                 (snd (handleFetchUsers None (Inr (samplePage 1 [sampleUser ''alice'' None]))
                    initialState))))))))"
  by (simp add: handlePaginationChange_fields handlePaginationChange_def handleCheckAllChange_def
      assign_selectedUserNames_def watch_selectedUserNames_def sample_run_defs)

text \<open>
  C2, amended. A fetch and a pagination change leave the Selection Set exactly as it was,
  in both halves of the fetch and whatever the call answers: it is neither intersected with
  the new page nor cleared. It is the list of the identifiers of the current page right
  after \<^verbatim>\<open>handleCheckAllChange\<close> with the box ticked, and empty right after it with the
  box unticked.
\<close>

theorem C2_fetch_keeps_selection:
  "selectedUserNames (snd (handleFetchUsers options response s)) = selectedUserNames s
   \<and> selectedUserNames (fetch_issue options s) = selectedUserNames s
   \<and> selectedUserNames (snd (fetch_settle response s)) = selectedUserNames s
   \<and> selectedUserNames (snd (handlePaginationChange p sz response s)) = selectedUserNames s
   \<and> selectedUserNames (handleCheckAllChange True s)
     = map (\<lambda>user. name (metadata user)) (items (users s))
   \<and> selectedUserNames (handleCheckAllChange False s) = []"
  by (simp add: handleFetchUsers_fields fetch_issue_fields fetch_settle_fields
      handlePaginationChange_fields handleCheckAllChange_def assign_selectedUserNames_def
      watch_selectedUserNames_def)

subsection \<open>checkedAll\<close>

text \<open>
  C3, as stated, fails. In the initial state nothing is selected and the page is empty, so
  the two sizes agree, and \<open>checkedAll\<close> is false: the watcher has not run yet. And after
  every row of a one-user page has been ticked, a fetch that brings a second user leaves
  \<open>checkedAll\<close> true with one name selected out of two: nothing recomputes it when the
  page changes.
\<close>

theorem C3_checkedAll_stale:
  "checkedAll initialState
     \<noteq> (length (selectedUserNames initialState) = length (items (users initialState)))
   \<and> checkedAll
       (snd (handleFetchUsers None
          (Inr (samplePage 1 [sampleUser ''alice'' None, sampleUser ''bob'' None]))
          (checkAllBox_change True
             (snd (handleFetchUsers None (Inr (samplePage 1 [sampleUser ''alice'' None]))
                initialState)))))
     \<noteq> (length (selectedUserNames
          (snd (handleFetchUsers None
             (Inr (samplePage 1 [sampleUser ''alice'' None, sampleUser ''bob'' None]))
             (checkAllBox_change True
                (snd (handleFetchUsers None (Inr (samplePage 1 [sampleUser ''alice'' None]))
                   initialState))))))
        = length (items (users
          (snd (handleFetchUsers None
             (Inr (samplePage 1 [sampleUser ''alice'' None, sampleUser ''bob'' None]))
             (checkAllBox_change True
                (snd (handleFetchUsers None (Inr (samplePage 1 [sampleUser ''alice'' None]))
                   initialState))))))))"
  by (simp add: handleFetchUsers_fields checkAllBox_change_def handleCheckAllChange_def
      assign_selectedUserNames_def watch_selectedUserNames_def sample_run_defs)

text \<open>
  C3, amended. \<open>checkedAll\<close> is recomputed whenever a new array is assigned to
  \<^verbatim>\<open>selectedUserNames\<close>: right after such an assignment (ticking the check-all box,
  ticking or unticking a row) it is true exactly when the selection has as many names as
  the current page has items. Unticking the check-all box leaves it false with an empty
  selection. It is not recomputed when the page changes: a fetch or a pagination change
  leaves it as it was.
\<close>

theorem C3_checkedAll_recomputed_on_assignment:
  "checkedAll (assign_selectedUserNames v s)
     = (length (selectedUserNames (assign_selectedUserNames v s))
        = length (items (users (assign_selectedUserNames v s))))
   \<and> checkedAll (checkAllBox_change True s)
     = (length (selectedUserNames (checkAllBox_change True s))
        = length (items (users (checkAllBox_change True s))))
   \<and> checkedAll (rowBox_change n True s)
     = (if n \<in> set (selectedUserNames s) then checkedAll s
        else length (selectedUserNames (rowBox_change n True s))
           = length (items (users (rowBox_change n True s))))
   \<and> checkedAll (rowBox_change n False s)
     = (if n \<in> set (selectedUserNames s)
        then length (selectedUserNames (rowBox_change n False s))
           = length (items (users (rowBox_change n False s)))
        else checkedAll s)
   \<and> checkedAll (checkAllBox_change False s) = False
   \<and> selectedUserNames (checkAllBox_change False s) = []
   \<and> checkedAll (snd (handleFetchUsers options response s)) = checkedAll s
   \<and> checkedAll (snd (handlePaginationChange p sz response s)) = checkedAll s"
  by (simp add: handleFetchUsers_fields handlePaginationChange_fields checkAllBox_change_def
      handleCheckAllChange_def rowBox_change_def assign_selectedUserNames_def
      watch_selectedUserNames_def)

subsection \<open>The polling timer\<close>

lemma timers_clearInterval:
  "timers (clearInterval h s) = (case h of None \<Rightarrow> timers s | Some t \<Rightarrow> removeAll t (timers s))"
  "refreshInterval (clearInterval h s) = refreshInterval s"
  by (simp_all add: clearInterval_def split: option.split)

lemma timers_fetch_issue_eq:
  "timers (fetch_issue options s) = timers (clearInterval (refreshInterval s) s)"
  "refreshInterval (fetch_issue options s) = refreshInterval s"
  "nextTimer (fetch_issue options s) = nextTimer s"
  by (simp_all add: fetch_issue_def perform_def Let_def timers_clearInterval clearInterval_def
      split: option.split)

lemma timers_fetch_issue: "timer_inv s \<Longrightarrow> timers (fetch_issue options s) = []"
  by (auto simp: timer_inv_def timers_fetch_issue_eq timers_clearInterval split: option.split)

lemma timers_fetch_settle:
  "timers (snd (fetch_settle response s)) =
     (case response of
        Inl e \<Rightarrow> timers s
      | Inr data \<Rightarrow>
          if list_ex pendingDeletion (items data) then timers s @ [nextTimer s] else timers s)"
  "refreshInterval (snd (fetch_settle response s)) =
     (case response of
        Inl e \<Rightarrow> refreshInterval s
      | Inr data \<Rightarrow>
          if list_ex pendingDeletion (items data) then Some (nextTimer s) else refreshInterval s)"
  by (cases response; simp add: fetch_settle_failure fetch_settle_success fetch_try_def perform_def
        setInterval_def Let_def filter_empty_conv list_ex_iff)+

text \<open>
  When a call of \<^verbatim>\<open>handleFetchUsers\<close> starts with at most one interval running, the one
  \<open>refreshInterval\<close> names, and runs to its end with nothing in between, it ends the
  same way: one fresh interval when the page it fetched holds a user pending deletion, none
  otherwise or when the call failed. Unmounting then leaves none.
\<close>

lemma sequential_fetch_one_timer:
  assumes "timer_inv s"
  shows "timers (snd (handleFetchUsers options response s)) =
     (case response of
        Inl e \<Rightarrow> []
      | Inr data \<Rightarrow> if list_ex pendingDeletion (items data) then [nextTimer s] else [])"
    and "timer_inv (snd (handleFetchUsers options response s))"
    and "timers (onUnmounted s) = []"
  using assms
  by (auto simp: handleFetchUsers_def timers_fetch_settle timers_fetch_issue
      timers_fetch_issue_eq timers_clearInterval timer_inv_def onUnmounted_def
      split: sum.split option.split)

text \<open>
  C4 does not hold of the code when two calls overlap. \<^verbatim>\<open>clearInterval\<close> runs before the
  \<^verbatim>\<open>await\<close> and \<^verbatim>\<open>setInterval\<close> after it. Two calls leave before either list call has
  answered (the fetch of \<^verbatim>\<open>onMounted\<close> and a change of page, say); both answers hold a
  user pending deletion. Each call starts an interval, the handle of the first is
  overwritten, and intervals 1 and 2 run side by side. When interval 1 fires and its fetch
  finds nobody pending deletion, it has cancelled interval 2 and keeps running itself, and
  unmounting the view cancels nothing. Likewise a single fetch that is still in flight when
  the view is unmounted starts an interval afterwards.
\<close>

theorem C4_overlapping_fetches_leak_timer:
  "timers (snd (fetch_settle (Inr deletingPage) (snd (fetch_settle (Inr deletingPage)
      (fetch_issue None (fetch_issue None initialState)))))) = [1, 2]
   \<and> timers (snd (intervalCallback (Inr (samplePage 1 []))
      (snd (fetch_settle (Inr deletingPage) (snd (fetch_settle (Inr deletingPage)
         (fetch_issue None (fetch_issue None initialState)))))))) = [1]
   \<and> timers (onUnmounted (snd (intervalCallback (Inr (samplePage 1 []))
      (snd (fetch_settle (Inr deletingPage) (snd (fetch_settle (Inr deletingPage)
         (fetch_issue None (fetch_issue None initialState))))))))) = [1]
   \<and> timers (snd (fetch_settle (Inr deletingPage)
      (onUnmounted (fetch_issue None initialState)))) = [1]"
  by (simp add: deletingPage_def intervalCallback_def muteOptions_def onUnmounted_def
      sample_run_defs)



subsection \<open>Deleting\<close>

lemma try_finally_normal:
  "fst (finalizer s) = Inr () \<Longrightarrow> try_finally (c, s) finalizer = (c, snd (finalizer s))"
  by (cases "finalizer s") (auto simp: try_finally_def)

lemma handleDelete_onConfirm_eq:
  "handleDelete_onConfirm user removal response s =
     handleFetchUsers None response
       (perform (case removal of Inl e \<Rightarrow> ConsoleError ''Failed to delete user'' | Inr u \<Rightarrow> ToastSuccess)
          (perform (DeleteRequest (name (metadata user))) s))"
  by (cases removal)
     (simp_all add: handleDelete_onConfirm_def delete_try_def delete_catch_def try_catch_def
        try_finally_normal handleFetchUsers_fields prod_eq_iff Let_def)

lemma promise_all_Inr_iff:
  "(\<exists>xs. promise_all rs = Inr xs) = list_all (\<lambda>r. \<exists>x. r = Inr x) rs"
  by (induction rs rule: promise_all.induct) (auto split: sum.splits)

lemma promise_all_fulfilled:
  "list_all (\<lambda>n. removal n = Inr ()) ns \<Longrightarrow> \<exists>xs. promise_all (map removal ns) = Inr xs"
  using promise_all_Inr_iff [of "map removal ns"] by (auto simp: list_all_iff)

lemma promise_all_rejected:
  "\<not> list_all (\<lambda>n. removal n = Inr ()) ns \<Longrightarrow> \<exists>e. promise_all (map removal ns) = Inl e"
  using promise_all_Inr_iff [of "map removal ns"]
  by (cases "promise_all (map removal ns)") (auto simp: list_all_iff)

text \<open>
  C5. On a confirmed bulk delete the names dispatched are the selection, in its order,
  without the name of the current user. A remove request leaves for each of them whatever
  the answers are. When every removal is fulfilled, the list is fetched once after the
  last remove request, then the success toast is shown, and the selection ends empty; when
  one is rejected, nothing follows the remove requests: no fetch, no toast, and the
  selection is kept.
\<close>

theorem C5_bulk_delete:
  "set (userNamesToDelete currentUser s)
     = set (selectedUserNames s) - set_option (currentUserName currentUser)
   \<and> userNamesToDelete currentUser s
     = filter (\<lambda>n. Some n \<noteq> currentUserName currentUser) (selectedUserNames s)
   \<and> take (length (effects s) + length (userNamesToDelete currentUser s))
        (effects (snd (handleDeleteInBatch_onConfirm currentUser removal response s)))
     = effects s @ map DeleteRequest (userNamesToDelete currentUser s)
   \<and> (if list_all (\<lambda>n. removal n = Inr ()) (userNamesToDelete currentUser s)
      then fst (handleDeleteInBatch_onConfirm currentUser removal response s) = Inr ()
         \<and> effects (snd (handleDeleteInBatch_onConfirm currentUser removal response s))
           = effects s @ map DeleteRequest (userNamesToDelete currentUser s)
             @ ListRequest (page (users s)) (size' (users s))
             # (case response of Inl e \<Rightarrow> [ConsoleError ''Failed to fetch users''] | Inr d \<Rightarrow> [])
             @ [ToastSuccess]
         \<and> selectedUserNames (snd (handleDeleteInBatch_onConfirm currentUser removal response s)) = []
      else (\<exists>e. fst (handleDeleteInBatch_onConfirm currentUser removal response s) = Inl e)
         \<and> effects (snd (handleDeleteInBatch_onConfirm currentUser removal response s))
           = effects s @ map DeleteRequest (userNamesToDelete currentUser s)
         \<and> selectedUserNames (snd (handleDeleteInBatch_onConfirm currentUser removal response s))
           = selectedUserNames s)"
proof -
  let ?names = "userNamesToDelete currentUser s"
  let ?s1 = "s\<lparr>effects := effects s @ map DeleteRequest ?names\<rparr>"
  have dispatched: "set ?names = set (selectedUserNames s) - set_option (currentUserName currentUser)"
    by (cases "currentUserName currentUser") (auto simp: userNamesToDelete_def)
  have fulfilled: "handleDeleteInBatch_onConfirm currentUser removal response s
      = (Inr (), perform ToastSuccess ((snd (handleFetchUsers None response ?s1))\<lparr>selectedUserNames := []\<rparr>))"
    if allok: "list_all (\<lambda>n. removal n = Inr ()) ?names"
  proof -
    obtain xs where "promise_all (map removal ?names) = Inr xs"
      using promise_all_fulfilled [OF allok] by blast
    moreover obtain s2 where "handleFetchUsers None response ?s1 = (Inr (), s2)"
      using handleFetchUsers_pair [of None response ?s1] by blast
    ultimately show ?thesis
      by (simp add: handleDeleteInBatch_onConfirm_def Let_def)
  qed
  have rejected: "\<exists>e. handleDeleteInBatch_onConfirm currentUser removal response s = (Inl e, ?s1)"
    if notok: "\<not> list_all (\<lambda>n. removal n = Inr ()) ?names"
  proof -
    obtain e where "promise_all (map removal ?names) = Inl e"
      using promise_all_rejected [OF notok] by blast
    then show ?thesis
      by (simp add: handleDeleteInBatch_onConfirm_def Let_def)
  qed
  show ?thesis
  proof (cases "list_all (\<lambda>n. removal n = Inr ()) ?names")
    case True
    show ?thesis
      using dispatched True
      by (simp add: fulfilled [OF True] perform_def handleFetchUsers_fields userNamesToDelete_def)
  next
    case False
    from rejected [OF False] obtain e where
      "handleDeleteInBatch_onConfirm currentUser removal response s = (Inl e, ?s1)" by blast
    then show ?thesis
      using dispatched False by (simp add: userNamesToDelete_def)
  qed
qed

text \<open>The case of the spec: admin is logged in and has selected admin and bob.\<close>

theorem C5_bulk_delete_admin_bob:
  "userNamesToDelete (Some (sampleUser ''admin'' None))
     (initialState\<lparr>selectedUserNames := [''admin'', ''bob'']\<rparr>) = [''bob'']
   \<and> effects (snd (handleDeleteInBatch_onConfirm (Some (sampleUser ''admin'' None)) (\<lambda>n. Inr ())
        (Inr (samplePage 1 [])) (initialState\<lparr>selectedUserNames := [''admin'', ''bob'']\<rparr>)))
      = [DeleteRequest ''bob'', ListRequest 1 20, ToastSuccess]
   \<and> selectedUserNames (snd (handleDeleteInBatch_onConfirm (Some (sampleUser ''admin'' None))
        (\<lambda>n. Inr ()) (Inr (samplePage 1 []))
        (initialState\<lparr>selectedUserNames := [''admin'', ''bob'']\<rparr>))) = []"
proof -
  let ?s = "initialState\<lparr>selectedUserNames := [''admin'', ''bob'']\<rparr>"
  let ?cu = "Some (sampleUser ''admin'' None)"
  have n: "userNamesToDelete ?cu ?s = [''bob'']"
    by (simp add: userNamesToDelete_def currentUserName_def sampleUser_def)
  have e: "effects ?s = []" "page (users ?s) = 1" "size' (users ?s) = 20"
    by (simp_all add: initialState_def initialUsers_def)
  show ?thesis
    using C5_bulk_delete [of ?cu ?s "\<lambda>n. Inr ()" "Inr (samplePage 1 [])"] n e by simp
qed

text \<open>
  The list fetch and the single delete catch what their remote call throws: both complete
  normally whatever the calls answer, and a failed call leaves its line in the console.
\<close>

lemma fetch_and_single_delete_catch:
  "fst (handleFetchUsers options response s) = Inr ()"
  "fst (handleDelete_onConfirm user removal response s) = Inr ()"
  "ConsoleError ''Failed to fetch users'' \<in> set (effects (snd (handleFetchUsers options (Inl e) s)))"
  "ConsoleError ''Failed to delete user''
     \<in> set (effects (snd (handleDelete_onConfirm user (Inl e) response s)))"
  by (simp_all add: handleDelete_onConfirm_eq handleFetchUsers_fields perform_def)

text \<open>
  C6 does not hold of the bulk delete. Its callback has no \<^verbatim>\<open>try\<close>: with alice and bob
  selected and the removal of bob rejected, the callback completes abruptly with that
  error, after the two remove requests and nothing else: nothing is logged, the list is
  not fetched again and the selection stays.
\<close>

theorem C6_bulk_delete_rethrows:
  "handleDeleteInBatch_onConfirm (Some (sampleUser ''admin'' None))
      (\<lambda>n. if n = ''bob'' then Inl RemoteError else Inr ())
      (Inr (samplePage 1 [sampleUser ''bob'' None]))
      (initialState\<lparr>selectedUserNames := [''alice'', ''bob'']\<rparr>)
   = (Inl RemoteError,
      initialState\<lparr>selectedUserNames := [''alice'', ''bob''],
        effects := [DeleteRequest ''alice'', DeleteRequest ''bob'']\<rparr>)"
  by (simp add: handleDeleteInBatch_onConfirm_def userNamesToDelete_def currentUserName_def
      sampleUser_def initialState_def Let_def)

text \<open>
  C7, as stated, fails on the failure path: when the remove call is rejected, the
  callback asks for the removal, writes to the console and fetches the list. No toast is
  shown: the user gets no feedback of the failure.
\<close>

theorem C7_no_failure_feedback:
  "effects (snd (handleDelete_onConfirm (sampleUser ''bob'' None) (Inl RemoteError)
      (Inr (samplePage 1 [sampleUser ''bob'' None])) initialState))
    = [DeleteRequest ''bob'', ConsoleError ''Failed to delete user'', ListRequest 1 20]"
  by (simp add: handleDelete_onConfirm_eq handleFetchUsers_fields perform_def initialState_def
      initialUsers_def sampleUser_def)

text \<open>
  C7, amended. A confirmed single delete asks for the removal of the user; then it shows
  the success toast when the call is fulfilled, and only writes the error to the console
  when it is rejected; then, on both paths, it fetches the list once, and completes
  normally.
\<close>

theorem C7_single_delete_refetches:
  "fst (handleDelete_onConfirm user removal response s) = Inr ()
   \<and> effects (snd (handleDelete_onConfirm user removal response s))
     = effects s
       @ DeleteRequest (name (metadata user))
       # (case removal of Inl e \<Rightarrow> ConsoleError ''Failed to delete user'' | Inr u \<Rightarrow> ToastSuccess)
       # ListRequest (page (users s)) (size' (users s))
       # (case response of Inl e \<Rightarrow> [ConsoleError ''Failed to fetch users''] | Inr d \<Rightarrow> [])"
  by (simp add: handleDelete_onConfirm_eq handleFetchUsers_fields perform_def)

subsection \<open>Searching\<close>

text \<open>
  C8. With an empty keyword, or before any index has been built, \<open>searchResults\<close> is the
  list of items of the current page, as it is. It is a function of the state to a list of
  users: it has no effect to log, so it asks nothing of the network.
\<close>

theorem C8_search_identity:
  "fuse s = None \<or> keyword s = [] \<Longrightarrow> searchResults fuse_search s = items (users s)"
  by (auto simp: searchResults_def split: option.split)

text \<open>After a first fetch of two users the index exists and the keyword is still empty.\<close>

theorem C8_search_identity_witness:
  "searchResults (\<lambda>index k. [])
     (snd (handleFetchUsers None
        (Inr (samplePage 1 [sampleUser ''alice'' None, sampleUser ''bob'' None])) initialState))
   = [sampleUser ''alice'' None, sampleUser ''bob'' None]"
proof -
  let ?s = "snd (handleFetchUsers None
        (Inr (samplePage 1 [sampleUser ''alice'' None, sampleUser ''bob'' None])) initialState)"
  have k: "keyword ?s = []"
    by (simp add: sample_run_defs)
  have i: "items (users ?s) = [sampleUser ''alice'' None, sampleUser ''bob'' None]"
    by (simp add: sample_run_defs)
  show ?thesis
    using C8_search_identity [of ?s "\<lambda>index k. []"] k i by simp
qed



subsection \<open>Decoding the roles\<close>

lemma JSON_parse_empty_array: "JSON_parse ''[]'' = Inr (JArray [])"
  by (simp add: JSON_parse_def is_ws_def)

lemma JSON_parse_empty_text: "JSON_parse [] = Inl SyntaxError"
  by (simp add: JSON_parse_def)

lemma JSON_parse_editor_guest:
  \<open>JSON_parse ''["Editor","Guest"]'' = Inr (JArray [jstring ''Editor'', jstring ''Guest''])\<close>
  by (simp add: JSON_parse_def is_ws_def is_digit_def unit_then_def jstring_def)

lemma JSON_parse_not_json: "JSON_parse ''Editor,Guest'' = Inl SyntaxError"
  by (simp add: JSON_parse_def is_ws_def is_digit_def)

text \<open>
  C9, as stated, fails at one malformed value: the empty string is not a JSON text, and
  \<^verbatim>\<open>JSON.parse("")\<close> throws, yet a user whose annotation is the empty string decodes
  to the empty list. The \<^verbatim>\<open>|| "[]"\<close> of \<^verbatim>\<open>getRoles\<close> is a fallback for it.
\<close>

theorem C9_empty_annotation_does_not_raise:
  "JSON_parse [] = Inl SyntaxError
   \<and> getRoles ''rbac.authorization.halo.run/role-names''
       (sampleUserWithRoles ''alice'' ''rbac.authorization.halo.run/role-names'' [])
     = Inr (JArray [])"
  by (simp add: JSON_parse_empty_text JSON_parse_empty_array getRoles_def roleNamesAnnotation_def
      sampleUserWithRoles_def)

text \<open>
  C9, amended. Decoding the role list of a user gives the empty array when the annotation
  is absent, the array of Editor and Guest, in this order, when it is
  \<^verbatim>\<open>["Editor","Guest"]\<close>, and for every annotation value that is not the empty string
  exactly what \<^verbatim>\<open>JSON.parse\<close> gives for that value: when the parse of such a value
  throws, so does the decoding, with no fallback.
\<close>

theorem C9_getRoles_decodes:
  \<open>(roleNamesAnnotation k user = None \<longrightarrow> getRoles k user = Inr (JArray []))
   \<and> (roleNamesAnnotation k user = Some ''["Editor","Guest"]''
        \<longrightarrow> getRoles k user = Inr (JArray [jstring ''Editor'', jstring ''Guest'']))
   \<and> (\<forall>text. roleNamesAnnotation k user = Some text \<and> text \<noteq> []
        \<longrightarrow> getRoles k user = JSON_parse text)
   \<and> (\<forall>text e. roleNamesAnnotation k user = Some text \<and> text \<noteq> [] \<and> JSON_parse text = Inl e
        \<longrightarrow> getRoles k user = Inl e)\<close>
  by (simp add: getRoles_def JSON_parse_empty_array JSON_parse_editor_guest)

text \<open>Three users: no annotations at all, the annotation of the spec, and a value that
  is not JSON.\<close>

theorem C9_getRoles_decodes_witness:
  \<open>getRoles ''rbac.authorization.halo.run/role-names'' (sampleUser ''alice'' None) = Inr (JArray [])
   \<and> getRoles ''rbac.authorization.halo.run/role-names''
       (sampleUserWithRoles ''bob'' ''rbac.authorization.halo.run/role-names'' ''["Editor","Guest"]'')
     = Inr (JArray [jstring ''Editor'', jstring ''Guest''])
   \<and> getRoles ''rbac.authorization.halo.run/role-names''
       (sampleUserWithRoles ''carol'' ''rbac.authorization.halo.run/role-names'' ''Editor,Guest'')
     = Inl SyntaxError\<close>
proof -
  let ?k = "''rbac.authorization.halo.run/role-names''"
  have a: "roleNamesAnnotation ?k (sampleUser ''alice'' None) = None"
    by (simp add: roleNamesAnnotation_def sampleUser_def)
  have b: \<open>roleNamesAnnotation ?k (sampleUserWithRoles ''bob'' ?k ''["Editor","Guest"]'')
      = Some ''["Editor","Guest"]''\<close>
    by (simp add: roleNamesAnnotation_def sampleUserWithRoles_def)
  have c: "roleNamesAnnotation ?k (sampleUserWithRoles ''carol'' ?k ''Editor,Guest'')
      = Some ''Editor,Guest''"
    by (simp add: roleNamesAnnotation_def sampleUserWithRoles_def)
  have c': "''Editor,Guest'' \<noteq> []" by simp
  show ?thesis
    using C9_getRoles_decodes [of ?k "sampleUser ''alice'' None"] a
      C9_getRoles_decodes [of ?k \<open>sampleUserWithRoles ''bob'' ?k ''["Editor","Guest"]''\<close>] b
      C9_getRoles_decodes [of ?k "sampleUserWithRoles ''carol'' ?k ''Editor,Guest''"] c c'
      JSON_parse_not_json
    by blast
qed

text \<open>
  C10. When the role-names annotation is present and is the empty string, decoding gives
  the empty array and does not throw: the same as for the user with the annotations
  taken away.
\<close>

theorem C10_empty_annotation_is_empty_list:
  "roleNamesAnnotation k user = Some [] \<Longrightarrow>
     getRoles k user = Inr (JArray [])
     \<and> getRoles k user = getRoles k (user\<lparr>metadata := (metadata user)\<lparr>annotations := None\<rparr>\<rparr>)"
  by (simp add: getRoles_def roleNamesAnnotation_def JSON_parse_empty_array)

text \<open>A user whose only annotation is the role names, set to the empty string.\<close>

theorem C10_empty_annotation_is_empty_list_witness:
  "getRoles ''rbac.authorization.halo.run/role-names''
       (sampleUserWithRoles ''dave'' ''rbac.authorization.halo.run/role-names'' [])
     = Inr (JArray [])
   \<and> getRoles ''rbac.authorization.halo.run/role-names''
       (sampleUserWithRoles ''dave'' ''rbac.authorization.halo.run/role-names'' [])
     = getRoles ''rbac.authorization.halo.run/role-names'' (sampleUser ''dave'' None)"
proof -
  let ?k = "''rbac.authorization.halo.run/role-names''"
  let ?u = "sampleUserWithRoles ''dave'' ?k []"
  have present: "roleNamesAnnotation ?k ?u = Some []"
    by (simp add: roleNamesAnnotation_def sampleUserWithRoles_def)
  have stripped: "?u\<lparr>metadata := (metadata ?u)\<lparr>annotations := None\<rparr>\<rparr> = sampleUser ''dave'' None"
    by (simp add: sampleUserWithRoles_def sampleUser_def)
  from C10_empty_annotation_is_empty_list [OF present] show ?thesis
    unfolding stripped .
qed

end
